theory Spec2Isabelle
  imports Complex_Main "HOL-Library.Monad_Syntax"
begin

section \<open>Numbers\<close>

text \<open>
  The program is JavaScript driving WebGPU, with a WGSL shader module. Its numbers are
  modelled by their mathematical values:
  \<^item> WGSL \<open>f32\<close> values and the entries of a \<open>Float32Array\<close> are \<open>real\<close>, and
    the \<open>f32\<close> operations are the exact operations on the reals (no rounding);
  \<^item> WGSL \<open>u32\<close> values and the entries of a \<open>Uint32Array\<close> are \<open>nat\<close>: the
    program stores only 0 and 1 there and does no arithmetic on them;
  \<^item> the JavaScript number \<open>step\<close> is a \<open>nat\<close>: it starts at 0 and is only ever
    incremented by one.
\<close>

section \<open>The shader module (shaders.js)\<close>

subsection \<open>WGSL vectors\<close>

datatype vec2f = Vec2f (vx: real) (vy: real)

datatype vec4f = Vec4f real real real real

text \<open>The componentwise operators of WGSL, a scalar operand being applied to each component.\<close>

definition vec2_mul_s :: "vec2f \<Rightarrow> real \<Rightarrow> vec2f" where
  "vec2_mul_s v k = Vec2f (vx v * k) (vy v * k)"

definition vec2_add_s :: "vec2f \<Rightarrow> real \<Rightarrow> vec2f" where
  "vec2_add_s v k = Vec2f (vx v + k) (vy v + k)"

definition vec2_sub_s :: "vec2f \<Rightarrow> real \<Rightarrow> vec2f" where
  "vec2_sub_s v k = Vec2f (vx v - k) (vy v - k)"

definition vec2_div :: "vec2f \<Rightarrow> vec2f \<Rightarrow> vec2f" where
  "vec2_div v w = Vec2f (vx v / vx w) (vy v / vy w)"

definition vec2_add :: "vec2f \<Rightarrow> vec2f \<Rightarrow> vec2f" where
  "vec2_add v w = Vec2f (vx v + vx w) (vy v + vy w)"

text \<open>
  The WGSL remainder \<open>e1 % e2\<close> on floats is \<open>e1 - e2 * trunc (e1 / e2)\<close>, with
  \<open>trunc\<close> rounding towards zero.
\<close>

definition f32_trunc :: "real \<Rightarrow> real" where
  "f32_trunc r = (if 0 \<le> r then of_int \<lfloor>r\<rfloor> else of_int \<lceil>r\<rceil>)"

definition f32_rem :: "real \<Rightarrow> real \<Rightarrow> real" where
  "f32_rem e1 e2 = e1 - e2 * f32_trunc (e1 / e2)"

definition f32_floor :: "real \<Rightarrow> real" where
  "f32_floor r = of_int \<lfloor>r\<rfloor>"

subsection \<open>Shader interface\<close>

text \<open>
  \<open>struct VertexInput\<close>: the vertex attribute at location 0 and the built-in instance
  index. \<open>struct VertexOutput\<close>: the clip-space position and the cell coordinate handed
  to the fragment stage.
\<close>

datatype VertexInput = VertexInput (input_pos: vec2f) (input_instance: nat)

datatype VertexOutput = VertexOutput (output_pos: vec4f) (output_cell: vec2f)

text \<open>
  The two module-scope resources of bind group 0: the uniform \<open>grid\<close> at binding 0 and
  the storage array \<open>cellState\<close> at binding 1.
\<close>

record bind_group0 =
  grid :: vec2f
  cellState :: "nat list"

text \<open>
  Reading \<open>cellState[k]\<close>. WGSL gives an out-of-bounds read of a storage array no
  definite value; the model returns \<open>None\<close> there.
\<close>

definition storage_read :: "nat list \<Rightarrow> nat \<Rightarrow> nat option" where
  "storage_read cs k = (if k < length cs then Some (cs ! k) else None)"

subsection \<open>vertexMain\<close>

definition vertexMain :: "bind_group0 \<Rightarrow> VertexInput \<Rightarrow> VertexOutput option" where
  "vertexMain b input =
     (let i = real (input_instance input);
          cellX = f32_rem i (vx (grid b));
          cellY = f32_floor (i / vx (grid b));
          cell = Vec2f cellX cellY
      in case storage_read (cellState b) (input_instance input) of
           None \<Rightarrow> None
         | Some s \<Rightarrow>
             (let state = real s;
                  cellOffset = vec2_mul_s (vec2_div cell (grid b)) 2;
                  currentCellPos =
                    vec2_sub_s
                      (vec2_div (vec2_add_s (vec2_mul_s (input_pos input) state) 1) (grid b)) 1;
                  gridPos = vec2_add currentCellPos cellOffset
              in Some (VertexOutput (Vec4f (vx gridPos) (vy gridPos) 0 1) cell)))"

subsection \<open>fragmentMain\<close>

definition fragmentMain :: "bind_group0 \<Rightarrow> VertexOutput \<Rightarrow> vec4f" where
  "fragmentMain b input =
     (let c = vec2_div (output_cell input) (grid b)
      in Vec4f (vx c) (vy c) (1 - vy c) 1)"

section \<open>The host program (the main script)\<close>

definition GRID_SIZE :: nat where
  "GRID_SIZE = 32"

definition UPDATE_INTERVAL :: nat where
  "UPDATE_INTERVAL = 200"

subsection \<open>Typed arrays and the local store\<close>

datatype TypedArray = Uint32Array "nat list" | Float32Array "real list"

fun array_length :: "TypedArray \<Rightarrow> nat" where
  "array_length (Uint32Array xs) = length xs"
| "array_length (Float32Array xs) = length xs"

definition byteLength :: "TypedArray \<Rightarrow> nat" where
  "byteLength a = 4 * array_length a"

text \<open>
  A typed array is a mutable object: a local variable holds a reference to it. The
  references of one call of \<open>updateGrid\<close> index a local store, which is dropped when
  the call ends.
\<close>

type_synonym ref = nat

type_synonym store = "TypedArray list"

definition new_array :: "TypedArray \<Rightarrow> store \<Rightarrow> ref \<times> store" where
  "new_array a h = (length h, h @ [a])"

definition deref :: "store \<Rightarrow> ref \<Rightarrow> TypedArray" where
  "deref h a = (if a < length h then h ! a else Uint32Array [])"

fun map_u32 :: "(nat list \<Rightarrow> nat list) \<Rightarrow> TypedArray \<Rightarrow> TypedArray" where
  "map_u32 f (Uint32Array xs) = Uint32Array (f xs)"
| "map_u32 f (Float32Array xs) = Float32Array xs"

definition mutate :: "ref \<Rightarrow> (nat list \<Rightarrow> nat list) \<Rightarrow> store \<Rightarrow> store" where
  "mutate a f h = h[a := map_u32 f (deref h a)]"

text \<open>
  The first loop of \<open>updateGrid\<close>,
  \<^verbatim>\<open>for (let i = 0; i < cellStateArray.length; i += 3) { cellStateArray[i] = 1; }\<close>
  from its loop variable \<open>i\<close> on.
\<close>

function fill_every_third :: "nat \<Rightarrow> nat list \<Rightarrow> nat list" where
  "fill_every_third i arr =
     (if i < length arr then fill_every_third (i + 3) (arr[i := 1]) else arr)"
  by pat_completeness auto
termination
  by (relation "measure (\<lambda>(i, arr). length arr - i)") auto

text \<open>
  The second loop,
  \<^verbatim>\<open>for (let i = 0; i < cellStateArray.length; i++) { cellStateArray[i] = 1 % 2; }\<close>
  The value stored is the remainder of the literal 1 by 2, at every index.
\<close>

function fill_every_second :: "nat \<Rightarrow> nat list \<Rightarrow> nat list" where
  "fill_every_second i arr =
     (if i < length arr then fill_every_second (i + 1) (arr[i := 1 mod 2]) else arr)"
  by pat_completeness auto
termination
  by (relation "measure (\<lambda>(i, arr). length arr - i)") auto

subsection \<open>The device\<close>

text \<open>
  The objects a \<open>GPUDevice\<close> creates are kept in tables, in the order of their
  creation; a handle is an index into one of them. A buffer records every upload made
  to it by \<open>queue.writeBuffer\<close>, oldest first. Each upload of the program is at buffer
  offset 0 and fills the whole buffer, so the buffer holds its latest upload.
\<close>

type_synonym handle = nat

datatype GPUBufferUsage = STORAGE | COPY_DST | UNIFORM | VERTEX

record GPUBuffer =
  buffer_label :: string
  buffer_size :: nat
  buffer_usage :: "GPUBufferUsage set"
  uploads :: "TypedArray list"

datatype shader_source = cellShaderProgram

record GPUShaderModule =
  module_label :: string
  module_code :: shader_source

record GPUVertexBufferLayout =
  arrayStride :: nat
  attribute_format :: string
  attribute_offset :: nat
  shaderLocation :: nat

record GPURenderPipeline =
  pipeline_label :: string
  vertex_module :: handle
  vertex_entryPoint :: string
  vertex_buffers :: "GPUVertexBufferLayout list"
  fragment_module :: handle
  fragment_entryPoint :: string
  target_format :: string

record GPUBindGroup =
  group_label :: string
  group_layout :: "handle \<times> nat"
  entries :: "(nat \<times> handle) list"

datatype GPUColor = GPUColor real real real real

datatype pass_command =
    SetPipeline handle
  | SetVertexBuffer nat handle
  | SetBindGroup nat handle
  | Draw nat nat

record GPURenderPass =
  loadOp :: string
  clearValue :: GPUColor
  storeOp :: string
  commands :: "pass_command list"

type_synonym GPUCommandBuffer = "GPURenderPass list"

record GPUDevice =
  buffers :: "GPUBuffer list"
  shaderModules :: "GPUShaderModule list"
  renderPipelines :: "GPURenderPipeline list"
  bindGroups :: "GPUBindGroup list"
  submitted :: "GPUCommandBuffer list"

definition createBuffer ::
  "string \<Rightarrow> nat \<Rightarrow> GPUBufferUsage set \<Rightarrow> GPUDevice \<Rightarrow> handle \<times> GPUDevice" where
  "createBuffer l n u d =
     (length (buffers d),
      d\<lparr>buffers := buffers d @
         [\<lparr>buffer_label = l, buffer_size = n, buffer_usage = u, uploads = []\<rparr>]\<rparr>)"

text \<open>
  \<open>queue.writeBuffer(buffer, 0, data)\<close> copies the bytes of \<open>data\<close> as they are at the
  call: the buffer receives the array's value, not a reference to it.
\<close>

definition writeBuffer :: "handle \<Rightarrow> TypedArray \<Rightarrow> GPUDevice \<Rightarrow> GPUDevice" where
  "writeBuffer b data d =
     (if b < length (buffers d)
      then d\<lparr>buffers := (buffers d)
             [b := (buffers d ! b)\<lparr>uploads := uploads (buffers d ! b) @ [data]\<rparr>]\<rparr>
      else d)"

definition createShaderModule :: "string \<Rightarrow> shader_source \<Rightarrow> GPUDevice \<Rightarrow> handle \<times> GPUDevice" where
  "createShaderModule l c d =
     (length (shaderModules d),
      d\<lparr>shaderModules := shaderModules d @ [\<lparr>module_label = l, module_code = c\<rparr>]\<rparr>)"

definition createRenderPipeline :: "GPURenderPipeline \<Rightarrow> GPUDevice \<Rightarrow> handle \<times> GPUDevice" where
  "createRenderPipeline p d =
     (length (renderPipelines d), d\<lparr>renderPipelines := renderPipelines d @ [p]\<rparr>)"

definition createBindGroup :: "GPUBindGroup \<Rightarrow> GPUDevice \<Rightarrow> handle \<times> GPUDevice" where
  "createBindGroup g d = (length (bindGroups d), d\<lparr>bindGroups := bindGroups d @ [g]\<rparr>)"

definition submit :: "GPUCommandBuffer list \<Rightarrow> GPUDevice \<Rightarrow> GPUDevice" where
  "submit cbs d = d\<lparr>submitted := submitted d @ cbs\<rparr>"

subsection \<open>Recording a render pass\<close>

definition beginRenderPass :: "string \<Rightarrow> GPUColor \<Rightarrow> string \<Rightarrow> GPURenderPass" where
  "beginRenderPass lo cv so = \<lparr>loadOp = lo, clearValue = cv, storeOp = so, commands = []\<rparr>"

definition record_command :: "pass_command \<Rightarrow> GPURenderPass \<Rightarrow> GPURenderPass" where
  "record_command c p = p\<lparr>commands := commands p @ [c]\<rparr>"

definition setPipeline :: "handle \<Rightarrow> GPURenderPass \<Rightarrow> GPURenderPass" where
  "setPipeline p = record_command (SetPipeline p)"

definition setVertexBuffer :: "nat \<Rightarrow> handle \<Rightarrow> GPURenderPass \<Rightarrow> GPURenderPass" where
  "setVertexBuffer slot b = record_command (SetVertexBuffer slot b)"

definition setBindGroup :: "nat \<Rightarrow> handle \<Rightarrow> GPURenderPass \<Rightarrow> GPURenderPass" where
  "setBindGroup k g = record_command (SetBindGroup k g)"

definition draw :: "nat \<Rightarrow> nat \<Rightarrow> GPURenderPass \<Rightarrow> GPURenderPass" where
  "draw vertexCount instanceCount = record_command (Draw vertexCount instanceCount)"

definition finish :: "GPURenderPass \<Rightarrow> GPUCommandBuffer" where
  "finish p = [p]"

subsection \<open>The page\<close>

text \<open>
  What outlives a call of \<open>updateGrid\<close>: the module variable \<open>step\<close>, the device, the
  configuration of the canvas context, and the format that
  \<open>navigator.gpu.getPreferredCanvasFormat()\<close> answers (a constant of the browser).
\<close>

record world =
  step :: nat
  device :: GPUDevice
  canvas_configuration :: "string option"
  preferredCanvasFormat :: string

datatype exception =
    WebGPUNotSupported
  | NoAdapter
  | SurfaceUnavailable

text \<open>
  The top of the script: \<open>step = 0\<close>, then the two checks that throw, then the device.
\<close>

definition empty_device :: GPUDevice where
  "empty_device =
     \<lparr>buffers = [], shaderModules = [], renderPipelines = [], bindGroups = [], submitted = []\<rparr>"

definition initial_world :: "string \<Rightarrow> world" where
  "initial_world fmt =
     \<lparr>step = 0, device = empty_device, canvas_configuration = None,
      preferredCanvasFormat = fmt\<rparr>"

definition startup :: "bool \<Rightarrow> bool \<Rightarrow> string \<Rightarrow> exception + world" where
  "startup has_gpu has_adapter fmt =
     (if \<not> has_gpu then Inl WebGPUNotSupported
      else if \<not> has_adapter then Inl NoAdapter
      else Inr (initial_world fmt))"

text \<open>
  \<open>context.getCurrentTexture()\<close> is the one call of \<open>updateGrid\<close> whose failure the
  specification considers. Whether the canvas has a texture to give is the browser's
  answer at that call; the script has no \<open>try\<close>, so the exception leaves
  \<open>updateGrid\<close> there.
\<close>

definition getCurrentTexture :: "bool \<Rightarrow> exception + unit" where
  "getCurrentTexture available = (if available then Inr () else Inl SurfaceUnavailable)"

definition vertices :: TypedArray where
  "vertices = Float32Array
     [- 0.8, - 0.8,
      0.8, - 0.8,
      0.8, 0.8,
      - 0.8, - 0.8,
      - 0.8, 0.8,
      0.8, 0.8]"

subsection \<open>updateGrid\<close>

text \<open>
  The function, statement by statement. Its first argument is the module constant
  \<open>GRID_SIZE\<close> (the script is \<open>updateGrid GRID_SIZE\<close>), the second is whether the
  canvas gives a texture at this call. The result is how the call ended and the world it
  leaves behind: what was done before an exception stays done.
\<close>

definition updateGrid :: "nat \<Rightarrow> bool \<Rightarrow> world \<Rightarrow> (exception + unit) \<times> world" where
  "updateGrid N available w =
     (let step' = step w + 1;
          (cellStateArray, h) = new_array (Uint32Array (replicate (N * N) 0)) [];
          (bufferA, d) =
            createBuffer ''Cell State A'' (byteLength (deref h cellStateArray))
              {STORAGE, COPY_DST} (device w);
          (bufferB, d) =
            createBuffer ''Cell State B'' (byteLength (deref h cellStateArray))
              {STORAGE, COPY_DST} d;
          cellStateStorageBuffers = [bufferA, bufferB];
          h = mutate cellStateArray (fill_every_third 0) h;
          d = writeBuffer (cellStateStorageBuffers ! 0) (deref h cellStateArray) d;
          h = mutate cellStateArray (fill_every_second 0) h;
          d = writeBuffer (cellStateStorageBuffers ! 1) (deref h cellStateArray) d;
          gridSizeUniformArray = Float32Array [real N, real N];
          (gridSizeUniformBuffer, d) =
            createBuffer ''Grid Uniforms'' (byteLength gridSizeUniformArray)
              {UNIFORM, COPY_DST} d;
          d = writeBuffer gridSizeUniformBuffer gridSizeUniformArray d;
          canvasFormat = preferredCanvasFormat w;
          (vertexBuffer, d) =
            createBuffer ''Cell vertices'' (byteLength vertices) {VERTEX, COPY_DST} d;
          d = writeBuffer vertexBuffer vertices d;
          vertexBufferLayout =
            \<lparr>arrayStride = 8, attribute_format = ''float32x2'', attribute_offset = 0,
             shaderLocation = 0\<rparr>;
          (cellShaderModule, d) = createShaderModule ''Cell shader'' cellShaderProgram d;
          (cellPipeline, d) =
            createRenderPipeline
              \<lparr>pipeline_label = ''Cell pipeline'',
               vertex_module = cellShaderModule, vertex_entryPoint = ''vertexMain'',
               vertex_buffers = [vertexBufferLayout],
               fragment_module = cellShaderModule, fragment_entryPoint = ''fragmentMain'',
               target_format = canvasFormat\<rparr> d;
          (bindGroupA, d) =
            createBindGroup
              \<lparr>group_label = ''Cell renderer bind group A'',
               group_layout = (cellPipeline, 0),
               entries = [(0, gridSizeUniformBuffer), (1, cellStateStorageBuffers ! 0)]\<rparr> d;
          (bindGroupB, d) =
            createBindGroup
              \<lparr>group_label = ''Cell renderer bind group B'',
               group_layout = (cellPipeline, 0),
               entries = [(0, gridSizeUniformBuffer), (1, cellStateStorageBuffers ! 1)]\<rparr> d;
          groups = [bindGroupA, bindGroupB];
          w' = w\<lparr>step := step', device := d, canvas_configuration := Some canvasFormat\<rparr>
      in case getCurrentTexture available of
           Inl e \<Rightarrow> (Inl e, w')
         | Inr currentTexture \<Rightarrow>
             (let renderPass = beginRenderPass ''clear'' (GPUColor 0 0 0.4 1.0) ''store'';
                  renderPass = setPipeline cellPipeline renderPass;
                  renderPass = setVertexBuffer 0 vertexBuffer renderPass;
                  renderPass = setBindGroup 0 (groups ! (step' mod 2)) renderPass;
                  renderPass = draw (array_length vertices div 2) (N * N) renderPass;
                  commandBuffer = finish renderPass
              in (Inr (), w'\<lparr>device := submit [commandBuffer] d\<rparr>)))"

text \<open>
  \<open>setInterval(updateGrid, UPDATE_INTERVAL)\<close>: the timer calls \<open>updateGrid\<close> once per
  tick, whatever the call before did (an exception in a timer callback does not stop the
  timer). A run is given by the canvas's answers, one per tick.
\<close>

fun run :: "nat \<Rightarrow> bool list \<Rightarrow> world \<Rightarrow> world" where
  "run N [] w = w"
| "run N (available # ticks) w = run N ticks (snd (updateGrid N available w))"

subsection \<open>What a submitted command buffer draws\<close>

text \<open>
  The device executes a render pass command by command: the \<open>set\<close> commands bind a
  pipeline, a vertex buffer to a slot and a bind group to an index, and a \<open>Draw\<close> reads
  what is bound at that moment. Resolving the handles of a draw against the device's
  tables gives the objects it reads; a handle or binding that does not resolve gives
  \<open>None\<close>.
\<close>

definition lookup :: "'a list \<Rightarrow> handle \<Rightarrow> 'a option" where
  "lookup xs k = (if k < length xs then Some (xs ! k) else None)"

definition buffer_contents :: "GPUBuffer \<Rightarrow> TypedArray option" where
  "buffer_contents b = (if uploads b = [] then None else Some (last (uploads b)))"

record pass_state =
  bound_pipeline :: "handle option"
  bound_vertex_buffers :: "(nat \<times> handle) list"
  bound_groups :: "(nat \<times> handle) list"

record draw_call =
  draw_pipeline :: GPURenderPipeline
  draw_vertex_buffer :: GPUBuffer
  draw_bind_group :: GPUBindGroup
  draw_uniform_buffer :: GPUBuffer
  draw_state_buffer :: GPUBuffer
  draw_vertexCount :: nat
  draw_instanceCount :: nat

definition resolve_draw :: "GPUDevice \<Rightarrow> pass_state \<Rightarrow> nat \<Rightarrow> nat \<Rightarrow> draw_call option" where
  "resolve_draw d s vertexCount instanceCount =
     do {
       p \<leftarrow> bound_pipeline s;
       pipeline \<leftarrow> lookup (renderPipelines d) p;
       vb \<leftarrow> map_of (bound_vertex_buffers s) 0;
       vertex_buffer \<leftarrow> lookup (buffers d) vb;
       g \<leftarrow> map_of (bound_groups s) 0;
       bind_group \<leftarrow> lookup (bindGroups d) g;
       ub \<leftarrow> map_of (entries bind_group) 0;
       uniform_buffer \<leftarrow> lookup (buffers d) ub;
       sb \<leftarrow> map_of (entries bind_group) 1;
       state_buffer \<leftarrow> lookup (buffers d) sb;
       Some \<lparr>draw_pipeline = pipeline, draw_vertex_buffer = vertex_buffer,
             draw_bind_group = bind_group, draw_uniform_buffer = uniform_buffer,
             draw_state_buffer = state_buffer, draw_vertexCount = vertexCount,
             draw_instanceCount = instanceCount\<rparr>
     }"

fun exec_commands :: "GPUDevice \<Rightarrow> pass_state \<Rightarrow> pass_command list \<Rightarrow> draw_call option list" where
  "exec_commands d s [] = []"
| "exec_commands d s (SetPipeline p # cs) = exec_commands d (s\<lparr>bound_pipeline := Some p\<rparr>) cs"
| "exec_commands d s (SetVertexBuffer slot b # cs) =
     exec_commands d (s\<lparr>bound_vertex_buffers := (slot, b) # bound_vertex_buffers s\<rparr>) cs"
| "exec_commands d s (SetBindGroup k g # cs) =
     exec_commands d (s\<lparr>bound_groups := (k, g) # bound_groups s\<rparr>) cs"
| "exec_commands d s (Draw vertexCount instanceCount # cs) =
     resolve_draw d s vertexCount instanceCount # exec_commands d s cs"

definition pass_draws :: "GPUDevice \<Rightarrow> GPURenderPass \<Rightarrow> draw_call option list" where
  "pass_draws d p =
     exec_commands d
       \<lparr>bound_pipeline = None, bound_vertex_buffers = [], bound_groups = []\<rparr> (commands p)"

text \<open>
  The content of a frame: what its passes clear to, and for each draw the pipeline's
  entry points, vertex layout and target format, the data of the three buffers it reads,
  and its two counts. Handles are left out: they name objects, and the frame is made of
  what the objects hold.
\<close>

record draw_content =
  content_vertex_entryPoint :: string
  content_fragment_entryPoint :: string
  content_vertex_layout :: "GPUVertexBufferLayout list"
  content_target_format :: string
  content_vertex_data :: "TypedArray option"
  content_uniform_data :: "TypedArray option"
  content_state_data :: "TypedArray option"
  content_vertexCount :: nat
  content_instanceCount :: nat

definition draw_content_of :: "draw_call \<Rightarrow> draw_content" where
  "draw_content_of c =
     \<lparr>content_vertex_entryPoint = vertex_entryPoint (draw_pipeline c),
      content_fragment_entryPoint = fragment_entryPoint (draw_pipeline c),
      content_vertex_layout = vertex_buffers (draw_pipeline c),
      content_target_format = target_format (draw_pipeline c),
      content_vertex_data = buffer_contents (draw_vertex_buffer c),
      content_uniform_data = buffer_contents (draw_uniform_buffer c),
      content_state_data = buffer_contents (draw_state_buffer c),
      content_vertexCount = draw_vertexCount c,
      content_instanceCount = draw_instanceCount c\<rparr>"

record pass_content =
  content_loadOp :: string
  content_clearValue :: GPUColor
  content_storeOp :: string
  content_draws :: "draw_content option list"

definition pass_content_of :: "GPUDevice \<Rightarrow> GPURenderPass \<Rightarrow> pass_content" where
  "pass_content_of d p =
     \<lparr>content_loadOp = loadOp p, content_clearValue = clearValue p,
      content_storeOp = storeOp p,
      content_draws = map (map_option draw_content_of) (pass_draws d p)\<rparr>"

definition frame_content :: "GPUDevice \<Rightarrow> GPUCommandBuffer \<Rightarrow> pass_content list" where
  "frame_content d cb = map (pass_content_of d) cb"

text \<open>
  The command buffers one call of \<open>updateGrid\<close> submits, from the world before it and
  the answer of the canvas: those the call adds to the queue.
\<close>

definition submissions :: "nat \<Rightarrow> bool \<Rightarrow> world \<Rightarrow> GPUCommandBuffer list" where
  "submissions N available w =
     drop (length (submitted (device w)))
       (submitted (device (snd (updateGrid N available w))))"

definition frames :: "nat \<Rightarrow> bool \<Rightarrow> world \<Rightarrow> pass_content list list" where
  "frames N available w =
     map (frame_content (device (snd (updateGrid N available w)))) (submissions N available w)"

definition draws :: "nat \<Rightarrow> bool \<Rightarrow> world \<Rightarrow> draw_call option list" where
  "draws N available w =
     concat (map (pass_draws (device (snd (updateGrid N available w))))
       (concat (submissions N available w)))"

subsection \<open>The vertex stage of a draw\<close>




subsection \<open>Closed forms of one call\<close>

text \<open>What one call creates, written out: the four buffers with their uploads, \<dots>\<close>

definition new_buffers :: "nat \<Rightarrow> GPUBuffer list" where
  "new_buffers N =
     [\<lparr>buffer_label = ''Cell State A'', buffer_size = 4 * (N * N),
       buffer_usage = {STORAGE, COPY_DST},
       uploads = [Uint32Array (fill_every_third 0 (replicate (N * N) 0))]\<rparr>,
      \<lparr>buffer_label = ''Cell State B'', buffer_size = 4 * (N * N),
       buffer_usage = {STORAGE, COPY_DST},
       uploads =
         [Uint32Array (fill_every_second 0 (fill_every_third 0 (replicate (N * N) 0)))]\<rparr>,
      \<lparr>buffer_label = ''Grid Uniforms'', buffer_size = 8,
       buffer_usage = {UNIFORM, COPY_DST},
       uploads = [Float32Array [real N, real N]]\<rparr>,
      \<lparr>buffer_label = ''Cell vertices'', buffer_size = 48,
       buffer_usage = {VERTEX, COPY_DST},
       uploads = [vertices]\<rparr>]"

text \<open>\<dots> the pipeline, over the shader module with handle \<open>m\<close>, \<dots>\<close>

definition new_pipeline :: "handle \<Rightarrow> string \<Rightarrow> GPURenderPipeline" where
  "new_pipeline m fmt =
     \<lparr>pipeline_label = ''Cell pipeline'',
      vertex_module = m, vertex_entryPoint = ''vertexMain'',
      vertex_buffers =
        [\<lparr>arrayStride = 8, attribute_format = ''float32x2'', attribute_offset = 0,
          shaderLocation = 0\<rparr>],
      fragment_module = m, fragment_entryPoint = ''fragmentMain'',
      target_format = fmt\<rparr>"

text \<open>
  \<dots> the two bind groups, for the pipeline with handle \<open>p\<close> and the four buffers
  from handle \<open>b\<close> on, \<dots>
\<close>

definition new_groups :: "handle \<Rightarrow> handle \<Rightarrow> GPUBindGroup list" where
  "new_groups p b =
     [\<lparr>group_label = ''Cell renderer bind group A'', group_layout = (p, 0),
       entries = [(0, b + 2), (1, b)]\<rparr>,
      \<lparr>group_label = ''Cell renderer bind group B'', group_layout = (p, 0),
       entries = [(0, b + 2), (1, b + 1)]\<rparr>]"

text \<open>\<dots> and the world all this leaves, which is the world at \<open>getCurrentTexture\<close>.\<close>

definition after_setup :: "nat \<Rightarrow> world \<Rightarrow> world" where
  "after_setup N w =
     w\<lparr>step := step w + 1,
       device := (device w)
         \<lparr>buffers := buffers (device w) @ new_buffers N,
          shaderModules := shaderModules (device w) @
            [\<lparr>module_label = ''Cell shader'', module_code = cellShaderProgram\<rparr>],
          renderPipelines := renderPipelines (device w) @
            [new_pipeline (length (shaderModules (device w))) (preferredCanvasFormat w)],
          bindGroups := bindGroups (device w) @
            new_groups (length (renderPipelines (device w))) (length (buffers (device w)))\<rparr>,
       canvas_configuration := Some (preferredCanvasFormat w)\<rparr>"

text \<open>The render pass a call records, in a world \<open>w\<close> before the call.\<close>

definition recorded_pass :: "nat \<Rightarrow> world \<Rightarrow> GPURenderPass" where
  "recorded_pass N w =
     \<lparr>loadOp = ''clear'', clearValue = GPUColor 0 0 0.4 1, storeOp = ''store'',
      commands =
        [SetPipeline (length (renderPipelines (device w))),
         SetVertexBuffer 0 (length (buffers (device w)) + 3),
         SetBindGroup 0 (length (bindGroups (device w)) + (step w + 1) mod 2),
         Draw 6 (N * N)]\<rparr>"

text \<open>The draw of that pass, resolved: what \<open>pass_draws\<close> finds for it.\<close>

definition the_draw :: "nat \<Rightarrow> world \<Rightarrow> draw_call" where
  "the_draw N w =
     \<lparr>draw_pipeline = new_pipeline (length (shaderModules (device w))) (preferredCanvasFormat w),
      draw_vertex_buffer = new_buffers N ! 3,
      draw_bind_group =
        new_groups (length (renderPipelines (device w))) (length (buffers (device w))) !
          ((step w + 1) mod 2),
      draw_uniform_buffer = new_buffers N ! 2,
      draw_state_buffer = new_buffers N ! ((step w + 1) mod 2),
      draw_vertexCount = 6, draw_instanceCount = N * N\<rparr>"

text \<open>The buffers one call adds to the device, in the order of their creation.\<close>

definition created_buffers :: "nat \<Rightarrow> bool \<Rightarrow> world \<Rightarrow> GPUBuffer list" where
  "created_buffers N available w =
     drop (length (buffers (device w))) (buffers (device (snd (updateGrid N available w))))"

subsection \<open>The shader on a grid\<close>

text \<open>
  The resources the shader sees in a draw of \<open>updateGrid N\<close>: the uniform written
  from \<open>[N, N]\<close> and a state array \<open>cs\<close>.
\<close>

definition grid_resources :: "nat \<Rightarrow> nat list \<Rightarrow> bind_group0" where
  "grid_resources N cs = \<lparr>grid = Vec2f (real N) (real N), cellState = cs\<rparr>"


subsection \<open>Cells on the canvas\<close>

text \<open>
  The position on the canvas of a vertex output: the clip-space \<open>x\<close> and \<open>y\<close> divided by
  \<open>w\<close> (normalized device coordinates).
\<close>

definition ndc_xy :: "VertexOutput \<Rightarrow> real \<times> real" where
  "ndc_xy out = (case output_pos out of Vec4f x y z w \<Rightarrow> (x / w, y / w))"



text \<open>The whole local square \<open>[-1, 1] \<times> [-1, 1]\<close> of a cell, and its interior.\<close>

definition unit_square :: "vec2f set" where
  "unit_square = {p. - 1 \<le> vx p \<and> vx p \<le> 1 \<and> - 1 \<le> vy p \<and> vy p \<le> 1}"


text \<open>
  The canvas position \<open>vertexMain\<close> emits for instance \<open>i\<close> and vertex position \<open>p\<close>;
  the region of instance \<open>i\<close>: the positions emitted for the points of the quad; the
  slot of a cell: the positions emitted for the points of the whole local square by an
  active cell (state 1); and the normalized device coordinate range.
\<close>

definition emitted :: "nat \<Rightarrow> nat list \<Rightarrow> nat \<Rightarrow> vec2f \<Rightarrow> (real \<times> real) option" where
  "emitted N cs i p = map_option ndc_xy (vertexMain (grid_resources N cs) (VertexInput p i))"


definition slot :: "nat \<Rightarrow> nat \<Rightarrow> (real \<times> real) set" where
  "slot N i = {q. \<exists>p\<in>unit_square. emitted N (replicate (N * N) 1) i p = Some q}"




section \<open>Properties of the shader\<close>

lemma f32_rem_of_nat: "f32_rem (real i) (real N) = real (i mod N)"
proof -
  have "0 \<le> real i / real N" by simp
  then have "f32_trunc (real i / real N) = real (i div N)"
    by (simp add: f32_trunc_def floor_divide_of_nat_eq)
  moreover have "real i = real N * real (i div N) + real (i mod N)"
    by (metis of_nat_add of_nat_mult mult_div_mod_eq)
  ultimately show ?thesis by (simp add: f32_rem_def)
qed

lemma f32_floor_of_nat: "f32_floor (real i / real N) = real (i div N)"
  by (simp add: f32_floor_def floor_divide_of_nat_eq)

section \<open>The two fill loops\<close>


declare fill_every_third.simps [simp del]

declare fill_every_second.simps [simp del]

lemma length_fill_every_third: "length (fill_every_third i arr) = length arr"
proof (induction i arr rule: fill_every_third.induct)
  case (1 i arr)
  then show ?case by (subst fill_every_third.simps) simp
qed

lemma nth_fill_every_third:
  "k < length arr \<Longrightarrow>
   fill_every_third i arr ! k = (if i \<le> k \<and> (k - i) mod 3 = 0 then 1 else arr ! k)"
proof (induction i arr rule: fill_every_third.induct)
  case (1 i arr)
  show ?case
  proof (cases "i < length arr")
    case True
    have "fill_every_third i arr ! k = fill_every_third (i + 3) (arr[i := 1]) ! k"
      using True by (subst fill_every_third.simps) simp
    also have "\<dots> = (if i + 3 \<le> k \<and> (k - (i + 3)) mod 3 = 0 then 1 else arr[i := 1] ! k)"
      using "1.IH"[OF True] "1.prems" by simp
    also have "\<dots> = (if i \<le> k \<and> (k - i) mod 3 = 0 then 1 else arr ! k)"
    proof (cases "k = i")
      case True
      then show ?thesis using "1.prems" by simp
    next
      case False
      have "(i + 3 \<le> k \<and> (k - (i + 3)) mod 3 = 0) = (i \<le> k \<and> (k - i) mod 3 = 0)"
        using False by presburger
      then show ?thesis using False by simp
    qed
    finally show ?thesis .
  next
    case False
    then show ?thesis using "1.prems" by (subst fill_every_third.simps) simp
  qed
qed

lemma length_fill_every_second: "length (fill_every_second i arr) = length arr"
proof (induction i arr rule: fill_every_second.induct)
  case (1 i arr)
  then show ?case by (subst fill_every_second.simps) simp
qed

lemma nth_fill_every_second:
  "k < length arr \<Longrightarrow> fill_every_second i arr ! k = (if i \<le> k then 1 else arr ! k)"
proof (induction i arr rule: fill_every_second.induct)
  case (1 i arr)
  show ?case
  proof (cases "i < length arr")
    case True
    have "fill_every_second i arr ! k = fill_every_second (i + 1) (arr[i := 1 mod 2]) ! k"
      using True by (subst fill_every_second.simps) simp
    also have "\<dots> = (if i + 1 \<le> k then 1 else arr[i := 1 mod 2] ! k)"
      using "1.IH"[OF True] "1.prems" by simp
    also have "\<dots> = (if i \<le> k then 1 else arr ! k)"
      using "1.prems" True by (auto simp: nth_list_update)
    finally show ?thesis .
  next
    case False
    then show ?thesis using "1.prems" by (subst fill_every_second.simps) simp
  qed
qed

section \<open>One call of updateGrid\<close>

lemma nth_pair_mod2: "[g, Suc g] ! (k mod 2) = g + k mod 2"
proof (cases "k mod 2 = 0")
  case True
  then show ?thesis by simp
next
  case False
  then have "k mod 2 = 1" by presburger
  then show ?thesis by simp
qed

lemma updateGrid_unavailable:
  "updateGrid N False w = (Inl SurfaceUnavailable, after_setup N w)"
  unfolding updateGrid_def after_setup_def new_buffers_def new_pipeline_def new_groups_def
  by (simp add: Let_def new_array_def createBuffer_def writeBuffer_def deref_def mutate_def
      byteLength_def createShaderModule_def createRenderPipeline_def createBindGroup_def
      nth_append list_update_append length_fill_every_third getCurrentTexture_def vertices_def
      cong: let_weak_cong prod.case_cong_weak sum.case_cong_weak)

lemma updateGrid_available:
  "updateGrid N True w =
     (Inr (), (after_setup N w)
        \<lparr>device := submit [[recorded_pass N w]] (device (after_setup N w))\<rparr>)"
  unfolding updateGrid_def after_setup_def new_buffers_def new_pipeline_def new_groups_def
    recorded_pass_def
  by (simp add: Let_def new_array_def createBuffer_def writeBuffer_def deref_def mutate_def
      byteLength_def createShaderModule_def createRenderPipeline_def createBindGroup_def
      nth_append list_update_append length_fill_every_third getCurrentTexture_def vertices_def
      nth_pair_mod2 beginRenderPass_def record_command_def setPipeline_def setVertexBuffer_def
      setBindGroup_def draw_def finish_def submit_def
      cong: let_weak_cong prod.case_cong_weak sum.case_cong_weak)

lemma updateGrid_step: "step (snd (updateGrid N a w)) = step w + 1"
  by (cases a) (simp_all add: updateGrid_available updateGrid_unavailable after_setup_def)

lemma updateGrid_format:
  "preferredCanvasFormat (snd (updateGrid N a w)) = preferredCanvasFormat w"
  by (cases a) (simp_all add: updateGrid_available updateGrid_unavailable after_setup_def)

lemma updateGrid_device:
  "device (snd (updateGrid N a w)) =
     \<lparr>buffers = buffers (device w) @ new_buffers N,
      shaderModules = shaderModules (device w) @
        [\<lparr>module_label = ''Cell shader'', module_code = cellShaderProgram\<rparr>],
      renderPipelines = renderPipelines (device w) @
        [new_pipeline (length (shaderModules (device w))) (preferredCanvasFormat w)],
      bindGroups = bindGroups (device w) @
        new_groups (length (renderPipelines (device w))) (length (buffers (device w))),
      submitted = submitted (device w) @ (if a then [[recorded_pass N w]] else [])\<rparr>"
  by (cases a)
    (simp_all add: updateGrid_available updateGrid_unavailable after_setup_def submit_def)

lemma submissions_eq: "submissions N a w = (if a then [[recorded_pass N w]] else [])"
  by (simp add: submissions_def updateGrid_device)

lemma lookup_append_new: "r < length ys \<Longrightarrow> lookup (xs @ ys) (length xs + r) = Some (ys ! r)"
  by (simp add: lookup_def nth_append)

lemma lookup_append_first: "lookup (xs @ [y]) (length xs) = Some y"
  by (simp add: lookup_def)

lemma length_new_buffers: "length (new_buffers N) = 4"
  by (simp add: new_buffers_def)

lemma length_new_groups: "length (new_groups p b) = 2"
  by (simp add: new_groups_def)

lemma entries_new_groups:
  assumes "r < 2"
  shows "map_of (entries (new_groups p b ! r)) 0 = Some (b + 2)"
    and "map_of (entries (new_groups p b ! r)) 1 = Some (b + r)"
proof -
  from assms have "r = 0 \<or> r = 1" by auto
  then show "map_of (entries (new_groups p b ! r)) 0 = Some (b + 2)"
    and "map_of (entries (new_groups p b ! r)) 1 = Some (b + r)"
    by (auto simp: new_groups_def)
qed

lemma resolve_draw_recorded:
  assumes r: "r < 2"
  shows "resolve_draw
     \<lparr>buffers = bs @ new_buffers N, shaderModules = ms, renderPipelines = ps @ [pl],
      bindGroups = gs @ new_groups (length ps) (length bs), submitted = sub\<rparr>
     \<lparr>bound_pipeline = Some (length ps), bound_vertex_buffers = [(0, length bs + 3)],
      bound_groups = [(0, length gs + r)]\<rparr> vc ic =
     Some \<lparr>draw_pipeline = pl, draw_vertex_buffer = new_buffers N ! 3,
       draw_bind_group = new_groups (length ps) (length bs) ! r,
       draw_uniform_buffer = new_buffers N ! 2,
       draw_state_buffer = new_buffers N ! r,
       draw_vertexCount = vc, draw_instanceCount = ic\<rparr>"
proof -
  have g: "lookup (gs @ new_groups (length ps) (length bs)) (length gs + r) =
      Some (new_groups (length ps) (length bs) ! r)"
    using r by (simp add: lookup_append_new length_new_groups)
  have br: "lookup (bs @ new_buffers N) (length bs + r) = Some (new_buffers N ! r)"
    using r by (simp add: lookup_append_new length_new_buffers)
  have b2': "lookup (bs @ new_buffers N) (Suc (Suc (length bs))) = Some (new_buffers N ! 2)"
    using lookup_append_new[of 2 "new_buffers N" bs] by (simp add: length_new_buffers)
  have b3': "lookup (bs @ new_buffers N) (length bs + 3) = Some (new_buffers N ! 3)"
    by (simp add: lookup_append_new length_new_buffers)
  have e0: "map_of (entries (new_groups (length ps) (length bs) ! r)) 0 =
      Some (Suc (Suc (length bs)))"
    using entries_new_groups(1)[OF r, of "length ps" "length bs"] by simp
  have e1: "map_of (entries (new_groups (length ps) (length bs) ! r)) (Suc 0) =
      Some (length bs + r)"
    using entries_new_groups(2)[OF r, of "length ps" "length bs"] by simp
  show ?thesis
    unfolding resolve_draw_def
    by (simp add: g b3' b2' br lookup_append_first e0 e1)
qed

lemma pass_draws_recorded:
  "pass_draws (device (snd (updateGrid N a w))) (recorded_pass N w) = [Some (the_draw N w)]"
proof -
  have "(step w + 1) mod 2 < 2" by simp
  from resolve_draw_recorded[OF this] show ?thesis
    unfolding pass_draws_def recorded_pass_def updateGrid_device the_draw_def
    by simp
qed

lemma draws_eq: "draws N a w = (if a then [Some (the_draw N w)] else [])"
  by (simp add: draws_def submissions_eq pass_draws_recorded)

lemma frames_eq:
  "frames N a w =
     (if a then
        [[\<lparr>content_loadOp = ''clear'', content_clearValue = GPUColor 0 0 0.4 1,
           content_storeOp = ''store'',
           content_draws = [Some (draw_content_of (the_draw N w))]\<rparr>]]
      else [])"
  by (simp add: frames_def submissions_eq frame_content_def pass_content_of_def
      pass_draws_recorded) (simp add: recorded_pass_def)

lemma step_run: "step (run N ticks w) = step w + length ticks"
  by (induction ticks arbitrary: w) (simp_all add: updateGrid_step)

lemma format_run: "preferredCanvasFormat (run N ticks w) = preferredCanvasFormat w"
  by (induction ticks arbitrary: w) (simp_all add: updateGrid_format)

section \<open>The buffers of one call\<close>

lemma fill_every_third_replicate:
  "fill_every_third 0 (replicate n 0) = map (\<lambda>i. if i mod 3 = 0 then 1 else 0) [0..<n]"
  by (rule nth_equalityI) (simp_all add: length_fill_every_third nth_fill_every_third)

lemma fill_every_second_all: "fill_every_second 0 arr = replicate (length arr) 1"
  by (rule nth_equalityI) (simp_all add: length_fill_every_second nth_fill_every_second)

lemma created_buffers_eq: "created_buffers N a w = new_buffers N"
  by (simp add: created_buffers_def updateGrid_device)

lemma new_buffers_A:
  "new_buffers N ! 0 =
     \<lparr>buffer_label = ''Cell State A'', buffer_size = 4 * (N * N),
      buffer_usage = {STORAGE, COPY_DST},
      uploads = [Uint32Array (map (\<lambda>i. if i mod 3 = 0 then 1 else 0) [0..<N * N])]\<rparr>"
  by (simp add: new_buffers_def fill_every_third_replicate)

lemma new_buffers_B:
  "new_buffers N ! Suc 0 =
     \<lparr>buffer_label = ''Cell State B'', buffer_size = 4 * (N * N),
      buffer_usage = {STORAGE, COPY_DST},
      uploads = [Uint32Array (replicate (N * N) 1)]\<rparr>"
  by (simp add: new_buffers_def fill_every_second_all length_fill_every_third)

lemma run_buffers:
  "buffers (device (run N ticks w)) =
     buffers (device w) @ concat (replicate (length ticks) (new_buffers N))"
  by (induction ticks arbitrary: w) (simp_all add: updateGrid_device)

lemma run_counts:
  "length (shaderModules (device (run N ticks w))) =
     length (shaderModules (device w)) + length ticks"
  "length (renderPipelines (device (run N ticks w))) =
     length (renderPipelines (device w)) + length ticks"
  "length (bindGroups (device (run N ticks w))) =
     length (bindGroups (device w)) + 2 * length ticks"
  "length (submitted (device (run N ticks w))) =
     length (submitted (device w)) + count_list ticks True"
  by (induction ticks arbitrary: w) (simp_all add: updateGrid_device length_new_groups)

text \<open>
  Claim C4. When a call of \<open>updateGrid\<close> has uploaded its buffers, the buffer it
  created first, ``Cell State A'', holds one upload of \<open>N * N\<close> entries, the entry at
  index \<open>i\<close> being 1 if \<open>i mod 3 = 0\<close> and 0 otherwise. The host array it was uploaded
  from is overwritten afterwards and uploaded to ``Cell State B'' (all ones): buffer A
  keeps the pattern, so the upload copied the data. Later calls (\<open>ticks\<close>) leave the
  buffers that exist, and this one, as they are.
\<close>

theorem buffer_A_every_third:
  "created_buffers N a w ! 0 =
     \<lparr>buffer_label = ''Cell State A'', buffer_size = 4 * (N * N),
      buffer_usage = {STORAGE, COPY_DST},
      uploads = [Uint32Array (map (\<lambda>i. if i mod 3 = 0 then 1 else 0) [0..<N * N])]\<rparr>
   \<and> uploads (created_buffers N a w ! 1) = [Uint32Array (replicate (N * N) 1)]
   \<and> take (length (buffers (device w))) (buffers (device (run N (a # ticks) w))) =
       buffers (device w)
   \<and> take 1 (drop (length (buffers (device w))) (buffers (device (run N (a # ticks) w)))) =
       [created_buffers N a w ! 0]"
  by (simp add: created_buffers_eq new_buffers_A new_buffers_B run_buffers updateGrid_device)
    (simp add: new_buffers_def fill_every_third_replicate take_Suc_conv_app_nth)

text \<open>
  Claim C3 says that buffer B holds 1 at the odd indices and 0 at the even ones. The
  comment above the second loop says so too (``every second cell''), but the loop stores
  \<open>1 % 2\<close>, which is 1, at every index: the buffer ``Cell State B'' of every call holds
  \<open>N * N\<close> ones. With the script's grid size, its entry at index 0 is 1, where the claim
  has 0.
\<close>

theorem buffer_B_all_ones:
  "created_buffers N a w ! 1 =
     \<lparr>buffer_label = ''Cell State B'', buffer_size = 4 * (N * N),
      buffer_usage = {STORAGE, COPY_DST},
      uploads = [Uint32Array (replicate (N * N) 1)]\<rparr>
   \<and> buffer_contents (created_buffers GRID_SIZE True (initial_world ''bgra8unorm'') ! 1) =
       Some (Uint32Array (replicate 1024 1))
   \<and> replicate 1024 (1 :: nat) ! 0 \<noteq> 0 mod 2"
  by (simp add: created_buffers_eq new_buffers_B buffer_contents_def GRID_SIZE_def)

section \<open>Which bind group a call selects\<close>

lemma new_groups_labels:
  "group_label (new_groups p b ! 0) = ''Cell renderer bind group A''"
  "group_label (new_groups p b ! Suc 0) = ''Cell renderer bind group B''"
  by (simp_all add: new_groups_def)

lemma the_draw_labels:
  "(group_label (draw_bind_group (the_draw N w)), buffer_label (draw_state_buffer (the_draw N w))) =
     (if even (step w) then (''Cell renderer bind group B'', ''Cell State B'')
      else (''Cell renderer bind group A'', ''Cell State A''))"
proof (cases "even (step w)")
  case True
  then have "(step w + 1) mod 2 = 1" by presburger
  with True show ?thesis
    by (simp add: the_draw_def new_groups_labels new_buffers_B)
next
  case False
  then have "(step w + 1) mod 2 = 0" by presburger
  with False show ?thesis
    by (simp add: the_draw_def new_groups_labels new_buffers_A)
qed

text \<open>
  Claim C1, amended. The call of \<open>updateGrid\<close> with index \<open>k\<close> (counting from 0: \<open>k\<close>
  calls were made before it, whatever their outcome) draws with bind group B, and so reads
  the state buffer ``Cell State B'', when \<open>k\<close> is even, and with bind group A and
  ``Cell State A'' when \<open>k\<close> is odd: \<open>step\<close> is incremented before it selects, so the
  index into the two groups is \<open>(k + 1) mod 2\<close>.
\<close>

theorem binding_selection:
  "map (map_option (\<lambda>c. (group_label (draw_bind_group c), buffer_label (draw_state_buffer c))))
     (draws N True (run N ticks (initial_world fmt))) =
   [Some (if even (length ticks)
          then (''Cell renderer bind group B'', ''Cell State B'')
          else (''Cell renderer bind group A'', ''Cell State A''))]"
  by (simp add: draws_eq the_draw_labels step_run initial_world_def)

text \<open>
  Claim C1 as stated has buffer A for every even \<open>k\<close>. The first call, \<open>k = 0\<close>, of the
  script (grid size \<open>GRID_SIZE\<close>) does not read ``Cell State A'': it reads ``Cell State B''.
\<close>

theorem first_call_selects_B:
  "even (0 :: nat) \<and>
   map (map_option (\<lambda>c. buffer_label (draw_state_buffer c)))
     (draws GRID_SIZE True (run GRID_SIZE [] (initial_world ''bgra8unorm''))) \<noteq>
   [Some ''Cell State A'']"
proof -
  have "buffer_label (draw_state_buffer (the_draw GRID_SIZE (initial_world ''bgra8unorm''))) =
      ''Cell State B''"
    using the_draw_labels[of GRID_SIZE "initial_world ''bgra8unorm''"]
    by (simp add: initial_world_def)
  then show ?thesis by (simp add: draws_eq)
qed

section \<open>What a run sets up\<close>

text \<open>
  Claim C2, amended. Every call of \<open>updateGrid\<close> sets up anew: after \<open>M = length ticks\<close>
  calls from the start of the script the device has \<open>M\<close> pipelines, \<open>2 * M\<close> bind groups
  and \<open>4 * M\<close> buffers, each call having created its own ``Cell State A'',
  ``Cell State B'', ``Grid Uniforms'' and ``Cell vertices'' and uploaded to each exactly
  once; and the queue has one submission for every call whose canvas gave a texture (so
  \<open>M\<close> submissions when all \<open>M\<close> did).
\<close>

theorem setup_per_call:
  "length (submitted (device (run N ticks (initial_world fmt)))) = count_list ticks True
   \<and> length (renderPipelines (device (run N ticks (initial_world fmt)))) = length ticks
   \<and> length (bindGroups (device (run N ticks (initial_world fmt)))) = 2 * length ticks
   \<and> map (\<lambda>b. (buffer_label b, length (uploads b)))
        (buffers (device (run N ticks (initial_world fmt)))) =
      concat (replicate (length ticks)
        [(''Cell State A'', 1), (''Cell State B'', 1), (''Grid Uniforms'', 1),
         (''Cell vertices'', 1)])"
  by (simp add: run_counts run_buffers initial_world_def empty_device_def map_concat
      new_buffers_def)

text \<open>
  Claim C2 as stated has one pipeline, two bind groups and two state buffers for the
  whole run. After two calls of the script there are two pipelines, four bind groups and
  four state buffers.
\<close>

theorem second_call_sets_up_again:
  "length (renderPipelines
     (device (run GRID_SIZE [True, True] (initial_world ''bgra8unorm'')))) \<noteq> 1
   \<and> length (bindGroups
     (device (run GRID_SIZE [True, True] (initial_world ''bgra8unorm'')))) \<noteq> 2
   \<and> map buffer_label
     (buffers (device (run GRID_SIZE [True, True] (initial_world ''bgra8unorm'')))) =
     [''Cell State A'', ''Cell State B'', ''Grid Uniforms'', ''Cell vertices'',
      ''Cell State A'', ''Cell State B'', ''Grid Uniforms'', ''Cell vertices'']"
  by (simp add: run_counts run_buffers initial_world_def empty_device_def new_buffers_def
      del: run.simps)

section \<open>The frame a call submits\<close>

lemma updateGrid_outcome:
  "fst (updateGrid N a w) = (if a then Inr () else Inl SurfaceUnavailable)"
  by (cases a) (simp_all add: updateGrid_available updateGrid_unavailable)

lemma draw_content_the_draw:
  "draw_content_of (the_draw N w) =
     \<lparr>content_vertex_entryPoint = ''vertexMain'',
      content_fragment_entryPoint = ''fragmentMain'',
      content_vertex_layout =
        [\<lparr>arrayStride = 8, attribute_format = ''float32x2'', attribute_offset = 0,
          shaderLocation = 0\<rparr>],
      content_target_format = preferredCanvasFormat w,
      content_vertex_data = Some vertices,
      content_uniform_data = Some (Float32Array [real N, real N]),
      content_state_data =
        Some (Uint32Array
          (if even (step w) then replicate (N * N) 1
           else map (\<lambda>i. if i mod 3 = 0 then 1 else 0) [0..<N * N])),
      content_vertexCount = 6,
      content_instanceCount = N * N\<rparr>"
proof -
  have v: "buffer_contents (new_buffers N ! 3) = Some vertices"
    by (simp add: new_buffers_def buffer_contents_def)
  have u: "buffer_contents (new_buffers N ! 2) = Some (Float32Array [real N, real N])"
    by (simp add: new_buffers_def buffer_contents_def)
  have a: "buffer_contents (new_buffers N ! 0) =
      Some (Uint32Array (map (\<lambda>i. if i mod 3 = 0 then 1 else 0) [0..<N * N]))"
    by (simp add: new_buffers_A buffer_contents_def)
  have b: "buffer_contents (new_buffers N ! Suc 0) = Some (Uint32Array (replicate (N * N) 1))"
    by (simp add: new_buffers_B buffer_contents_def)
  show ?thesis
  proof (cases "even (step w)")
    case True
    then have "(step w + 1) mod 2 = 1" by presburger
    with True show ?thesis
      by (simp add: draw_content_of_def the_draw_def v u b new_pipeline_def)
  next
    case False
    then have "(step w + 1) mod 2 = 0" by presburger
    with False show ?thesis
      by (simp add: draw_content_of_def the_draw_def v u a new_pipeline_def)
  qed
qed

lemma frames_parity:
  "step w1 mod 2 = step w2 mod 2 \<Longrightarrow> preferredCanvasFormat w1 = preferredCanvasFormat w2 \<Longrightarrow>
   frames N True w1 = frames N True w2"
proof -
  assume "step w1 mod 2 = step w2 mod 2" and f: "preferredCanvasFormat w1 = preferredCanvasFormat w2"
  then have "even (step w1) = even (step w2)" by presburger
  with f show ?thesis by (simp add: frames_eq draw_content_the_draw)
qed

text \<open>
  Claim C10. Take two calls of \<open>updateGrid\<close> that complete, the calls with indices
  \<open>j = length ticks1\<close> and \<open>k = length ticks2\<close> of two runs of the script (whatever
  the calls before them did). If \<open>j\<close> and \<open>k\<close> have the same parity, the two calls
  submit the same frame: the same clear colour and operations, pipeline entry points,
  vertex layout and target format, the same vertex data, uniform values and state buffer
  contents, and the same draw counts. Each submits exactly one frame.
\<close>

theorem frame_by_parity:
  "length ticks1 mod 2 = length ticks2 mod 2 \<Longrightarrow>
   frames N True (run N ticks1 (initial_world fmt)) =
   frames N True (run N ticks2 (initial_world fmt))
   \<and> length (frames N True (run N ticks1 (initial_world fmt))) = 1"
  by (simp add: frames_parity step_run format_run initial_world_def) (simp add: frames_eq)

theorem frame_by_parity_witness:
  "length ([] :: bool list) mod 2 = length [False, True] mod 2
   \<and> frames 2 True (run 2 [] (initial_world ''bgra8unorm'')) =
     frames 2 True (run 2 [False, True] (initial_world ''bgra8unorm''))
   \<and> length (frames 2 True (run 2 [] (initial_world ''bgra8unorm''))) = 1"
proof -
  have h: "length ([] :: bool list) mod 2 = length [False, True] mod 2" by simp
  from frame_by_parity[OF h, of 2 "''bgra8unorm''"] h show ?thesis by blast
qed

text \<open>
  Claim C9, amended. When the canvas gives no texture, the call ends with the exception
  and submits nothing, and \<open>step\<close> keeps its incremented value. The world it leaves is
  written out in the first conjunct: the call has by then created its four buffers and
  uploaded to each of them once (the mod-3 pattern to ``Cell State A'', ones to
  ``Cell State B'', the grid size to ``Grid Uniforms'', the quad to ``Cell vertices''),
  created its shader module, its pipeline and its two bind groups, and configured the
  canvas, as every call does. Nothing else has changed: the objects the device had before
  the call are all there, unaltered, in front of the new ones. The next call completes,
  submits one command buffer, and its frame is the frame it would submit had the failed
  call changed nothing but \<open>step\<close>.
\<close>

theorem surface_failure:
  "updateGrid N False w =
     (Inl SurfaceUnavailable,
      w\<lparr>step := step w + 1,
        device := (device w)
          \<lparr>buffers := buffers (device w) @
             [\<lparr>buffer_label = ''Cell State A'', buffer_size = 4 * (N * N),
               buffer_usage = {STORAGE, COPY_DST},
               uploads = [Uint32Array (map (\<lambda>i. if i mod 3 = 0 then 1 else 0) [0..<N * N])]\<rparr>,
              \<lparr>buffer_label = ''Cell State B'', buffer_size = 4 * (N * N),
               buffer_usage = {STORAGE, COPY_DST},
               uploads = [Uint32Array (replicate (N * N) 1)]\<rparr>,
              \<lparr>buffer_label = ''Grid Uniforms'', buffer_size = 8,
               buffer_usage = {UNIFORM, COPY_DST},
               uploads = [Float32Array [real N, real N]]\<rparr>,
              \<lparr>buffer_label = ''Cell vertices'', buffer_size = 48,
               buffer_usage = {VERTEX, COPY_DST},
               uploads = [vertices]\<rparr>],
           shaderModules := shaderModules (device w) @
             [\<lparr>module_label = ''Cell shader'', module_code = cellShaderProgram\<rparr>],
           renderPipelines := renderPipelines (device w) @
             [\<lparr>pipeline_label = ''Cell pipeline'',
               vertex_module = length (shaderModules (device w)),
               vertex_entryPoint = ''vertexMain'',
               vertex_buffers =
                 [\<lparr>arrayStride = 8, attribute_format = ''float32x2'', attribute_offset = 0,
                   shaderLocation = 0\<rparr>],
               fragment_module = length (shaderModules (device w)),
               fragment_entryPoint = ''fragmentMain'',
               target_format = preferredCanvasFormat w\<rparr>],
           bindGroups := bindGroups (device w) @
             [\<lparr>group_label = ''Cell renderer bind group A'',
               group_layout = (length (renderPipelines (device w)), 0),
               entries = [(0, length (buffers (device w)) + 2), (1, length (buffers (device w)))]\<rparr>,
              \<lparr>group_label = ''Cell renderer bind group B'',
               group_layout = (length (renderPipelines (device w)), 0),
               entries =
                 [(0, length (buffers (device w)) + 2), (1, length (buffers (device w)) + 1)]\<rparr>]\<rparr>,
        canvas_configuration := Some (preferredCanvasFormat w)\<rparr>)
   \<and> fst (updateGrid N False w) = Inl SurfaceUnavailable
   \<and> submissions N False w = []
   \<and> submitted (device (snd (updateGrid N False w))) = submitted (device w)
   \<and> step (snd (updateGrid N False w)) = step w + 1
   \<and> preferredCanvasFormat (snd (updateGrid N False w)) = preferredCanvasFormat w
   \<and> take (length (buffers (device w))) (buffers (device (snd (updateGrid N False w)))) =
       buffers (device w)
   \<and> take (length (shaderModules (device w)))
       (shaderModules (device (snd (updateGrid N False w)))) = shaderModules (device w)
   \<and> take (length (renderPipelines (device w)))
       (renderPipelines (device (snd (updateGrid N False w)))) = renderPipelines (device w)
   \<and> take (length (bindGroups (device w)))
       (bindGroups (device (snd (updateGrid N False w)))) = bindGroups (device w)
   \<and> map buffer_label (created_buffers N False w) =
       [''Cell State A'', ''Cell State B'', ''Grid Uniforms'', ''Cell vertices'']
   \<and> fst (updateGrid N True (snd (updateGrid N False w))) = Inr ()
   \<and> length (submissions N True (snd (updateGrid N False w))) = 1
   \<and> frames N True (snd (updateGrid N False w)) = frames N True (w\<lparr>step := step w + 1\<rparr>)"
proof -
  have exact: "updateGrid N False w = (Inl SurfaceUnavailable, after_setup N w)"
    by (rule updateGrid_unavailable)
  have world: "after_setup N w =
      w\<lparr>step := step w + 1,
        device := (device w)
          \<lparr>buffers := buffers (device w) @
             [\<lparr>buffer_label = ''Cell State A'', buffer_size = 4 * (N * N),
               buffer_usage = {STORAGE, COPY_DST},
               uploads = [Uint32Array (map (\<lambda>i. if i mod 3 = 0 then 1 else 0) [0..<N * N])]\<rparr>,
              \<lparr>buffer_label = ''Cell State B'', buffer_size = 4 * (N * N),
               buffer_usage = {STORAGE, COPY_DST},
               uploads = [Uint32Array (replicate (N * N) 1)]\<rparr>,
              \<lparr>buffer_label = ''Grid Uniforms'', buffer_size = 8,
               buffer_usage = {UNIFORM, COPY_DST},
               uploads = [Float32Array [real N, real N]]\<rparr>,
              \<lparr>buffer_label = ''Cell vertices'', buffer_size = 48,
               buffer_usage = {VERTEX, COPY_DST},
               uploads = [vertices]\<rparr>],
           shaderModules := shaderModules (device w) @
             [\<lparr>module_label = ''Cell shader'', module_code = cellShaderProgram\<rparr>],
           renderPipelines := renderPipelines (device w) @
             [\<lparr>pipeline_label = ''Cell pipeline'',
               vertex_module = length (shaderModules (device w)),
               vertex_entryPoint = ''vertexMain'',
               vertex_buffers =
                 [\<lparr>arrayStride = 8, attribute_format = ''float32x2'', attribute_offset = 0,
                   shaderLocation = 0\<rparr>],
               fragment_module = length (shaderModules (device w)),
               fragment_entryPoint = ''fragmentMain'',
               target_format = preferredCanvasFormat w\<rparr>],
           bindGroups := bindGroups (device w) @
             [\<lparr>group_label = ''Cell renderer bind group A'',
               group_layout = (length (renderPipelines (device w)), 0),
               entries = [(0, length (buffers (device w)) + 2), (1, length (buffers (device w)))]\<rparr>,
              \<lparr>group_label = ''Cell renderer bind group B'',
               group_layout = (length (renderPipelines (device w)), 0),
               entries =
                 [(0, length (buffers (device w)) + 2), (1, length (buffers (device w)) + 1)]\<rparr>]\<rparr>,
        canvas_configuration := Some (preferredCanvasFormat w)\<rparr>"
    by (simp add: after_setup_def new_buffers_def new_pipeline_def new_groups_def
        fill_every_third_replicate fill_every_second_all length_fill_every_third)
  have rest: "fst (updateGrid N False w) = Inl SurfaceUnavailable
   \<and> submissions N False w = []
   \<and> submitted (device (snd (updateGrid N False w))) = submitted (device w)
   \<and> step (snd (updateGrid N False w)) = step w + 1
   \<and> preferredCanvasFormat (snd (updateGrid N False w)) = preferredCanvasFormat w
   \<and> take (length (buffers (device w))) (buffers (device (snd (updateGrid N False w)))) =
       buffers (device w)
   \<and> take (length (shaderModules (device w)))
       (shaderModules (device (snd (updateGrid N False w)))) = shaderModules (device w)
   \<and> take (length (renderPipelines (device w)))
       (renderPipelines (device (snd (updateGrid N False w)))) = renderPipelines (device w)
   \<and> take (length (bindGroups (device w)))
       (bindGroups (device (snd (updateGrid N False w)))) = bindGroups (device w)
   \<and> map buffer_label (created_buffers N False w) =
       [''Cell State A'', ''Cell State B'', ''Grid Uniforms'', ''Cell vertices'']
   \<and> fst (updateGrid N True (snd (updateGrid N False w))) = Inr ()
   \<and> length (submissions N True (snd (updateGrid N False w))) = 1
   \<and> frames N True (snd (updateGrid N False w)) = frames N True (w\<lparr>step := step w + 1\<rparr>)"
    by (simp add: updateGrid_outcome submissions_eq updateGrid_device updateGrid_step
        updateGrid_format created_buffers_eq)
      (simp add: new_buffers_def frames_parity updateGrid_step updateGrid_format)
  from exact world rest show ?thesis by (simp only:)
qed

text \<open>
  Claim C9 as stated leaves everything but \<open>step\<close> unchanged. The first call of the
  script, failing at the canvas, does not leave the initial world with \<open>step = 1\<close>: the
  device has four buffers more.
\<close>

theorem surface_failure_changes_device:
  "snd (updateGrid GRID_SIZE False (initial_world ''bgra8unorm'')) \<noteq>
     (initial_world ''bgra8unorm'')\<lparr>step := 1\<rparr>"
proof
  assume "snd (updateGrid GRID_SIZE False (initial_world ''bgra8unorm'')) =
     (initial_world ''bgra8unorm'')\<lparr>step := 1\<rparr>"
  then have "length (buffers (device (snd (updateGrid GRID_SIZE False (initial_world ''bgra8unorm''))))) =
     length (buffers (device ((initial_world ''bgra8unorm'')\<lparr>step := 1\<rparr>)))"
    by simp
  then show False
    by (simp add: updateGrid_device initial_world_def empty_device_def length_new_buffers)
qed

section \<open>The vertex stage\<close>

lemma vertexMain_grid:
  assumes "i < length cs"
  shows "vertexMain (grid_resources N cs) (VertexInput (Vec2f px py) i) =
     Some (VertexOutput
       (Vec4f ((px * real (cs ! i) + 1) / real N - 1 + 2 * real (i mod N) / real N)
              ((py * real (cs ! i) + 1) / real N - 1 + 2 * real (i div N) / real N) 0 1)
       (Vec2f (real (i mod N)) (real (i div N))))"
  using assms
  by (simp add: vertexMain_def grid_resources_def storage_read_def Let_def f32_rem_of_nat
      f32_floor_of_nat vec2_mul_s_def vec2_add_s_def vec2_sub_s_def vec2_div_def vec2_add_def)

text \<open>
  Claim C6. On a grid of dimension \<open>N\<close> with a state array of \<open>N * N\<close> entries, for
  every instance index \<open>i\<close> below \<open>N * N\<close> and every input vertex position
  \<open>(px, py)\<close>, the vertex stage outputs the clip-space position
  \<open>((p * s + 1) / N - 1) + 2 * (cellX, cellY) / N\<close> with \<open>z = 0\<close> and \<open>w = 1\<close>, where
  \<open>s\<close> is the state read at index \<open>i\<close>, \<open>cellX = i mod N\<close> and \<open>cellY = i div N\<close>,
  and hands \<open>(cellX, cellY)\<close> on. When \<open>s = 0\<close> the output is the same for all vertex
  positions: the vertices of the instance fall on one point.
\<close>

theorem vertexMain_position:
  assumes "i < N * N" and "length cs = N * N"
  shows "vertexMain (grid_resources N cs) (VertexInput (Vec2f px py) i) =
     Some (VertexOutput
       (Vec4f ((px * real (cs ! i) + 1) / real N - 1 + 2 * real (i mod N) / real N)
              ((py * real (cs ! i) + 1) / real N - 1 + 2 * real (i div N) / real N) 0 1)
       (Vec2f (real (i mod N)) (real (i div N))))
   \<and> (cs ! i = 0 \<longrightarrow>
        (\<forall>p q. vertexMain (grid_resources N cs) (VertexInput p i) =
               vertexMain (grid_resources N cs) (VertexInput q i)))"
proof -
  from assms have i: "i < length cs" by simp
  have "vertexMain (grid_resources N cs) (VertexInput p i) =
        vertexMain (grid_resources N cs) (VertexInput q i)" if "cs ! i = 0" for p q
    using that vertexMain_grid[OF i, of N "vx p" "vy p"] vertexMain_grid[OF i, of N "vx q" "vy q"]
    by simp
  with vertexMain_grid[OF i] show ?thesis by blast
qed

theorem vertexMain_position_witness:
  "(1 :: nat) < 2 * 2 \<and> length [1, 0, 0, 1 :: nat] = 2 * 2
   \<and> vertexMain (grid_resources 2 [1, 0, 0, 1]) (VertexInput (Vec2f 0.8 (- 0.8)) 1) =
       Some (VertexOutput (Vec4f 0.5 (- 0.5) 0 1) (Vec2f 1 0))
   \<and> vertexMain (grid_resources 2 [1, 0, 0, 1]) (VertexInput (Vec2f 0.8 (- 0.8)) 0) =
       Some (VertexOutput (Vec4f (- 0.1) (- 0.9) 0 1) (Vec2f 0 0))
   \<and> [1, 0, 0, 1 :: nat] ! 1 = 0
   \<and> vertexMain (grid_resources 2 [1, 0, 0, 1]) (VertexInput (Vec2f 0.8 (- 0.8)) 1) =
       vertexMain (grid_resources 2 [1, 0, 0, 1]) (VertexInput (Vec2f (- 0.8) 0.8) 1)"
proof -
  have h1: "(1 :: nat) < 2 * 2" and h0: "(0 :: nat) < 2 * 2"
    and l: "length [1, 0, 0, 1 :: nat] = 2 * 2" and z: "[1, 0, 0, 1 :: nat] ! 1 = 0"
    by simp_all
  note t1 = vertexMain_position[OF h1 l, of "0.8" "- 0.8"]
  note t0 = vertexMain_position[OF h0 l, of "0.8" "- 0.8"]
  from t1 z have e:
    "vertexMain (grid_resources 2 [1, 0, 0, 1]) (VertexInput (Vec2f 0.8 (- 0.8)) 1) =
     vertexMain (grid_resources 2 [1, 0, 0, 1]) (VertexInput (Vec2f (- 0.8) 0.8) 1)"
    by blast
  from t1 have p1:
    "vertexMain (grid_resources 2 [1, 0, 0, 1]) (VertexInput (Vec2f 0.8 (- 0.8)) 1) =
       Some (VertexOutput (Vec4f 0.5 (- 0.5) 0 1) (Vec2f 1 0))"
    by simp
  from t0 have p0:
    "vertexMain (grid_resources 2 [1, 0, 0, 1]) (VertexInput (Vec2f 0.8 (- 0.8)) 0) =
       Some (VertexOutput (Vec4f (- 0.1) (- 0.9) 0 1) (Vec2f 0 0))"
    by simp
  from h1 l p1 p0 z e show ?thesis by blast
qed






section \<open>Cells do not overlap\<close>

























section \<open>The fragment stage\<close>

text \<open>
  Claim C8. For every interpolated grid coordinate \<open>(cellX, cellY)\<close> the fragment stage
  emits exactly the colour \<open>(cellX / gridWidth, cellY / gridHeight, 1 - cellY / gridHeight, 1)\<close>.
  The colour depends on the grid coordinate and the grid dimensions only: another cell
  state array \<open>cs'\<close> and another interpolated position \<open>q'\<close> give the same colour.
\<close>

theorem fragmentMain_gradient:
  "fragmentMain \<lparr>grid = Vec2f gridWidth gridHeight, cellState = cs\<rparr>
     (VertexOutput q (Vec2f cellX cellY)) =
     Vec4f (cellX / gridWidth) (cellY / gridHeight) (1 - cellY / gridHeight) 1
   \<and> fragmentMain \<lparr>grid = Vec2f gridWidth gridHeight, cellState = cs'\<rparr>
     (VertexOutput q' (Vec2f cellX cellY)) =
     fragmentMain \<lparr>grid = Vec2f gridWidth gridHeight, cellState = cs\<rparr>
     (VertexOutput q (Vec2f cellX cellY))"
  by (simp add: fragmentMain_def vec2_div_def Let_def)

end
